theory Spec2Isabelle
  imports Main "HOL-Library.Sublist"
begin

section \<open>The Go library operations the proxy calls\<close>

text \<open>
  \<^verbatim>\<open>main.go\<close> is written against Go's \<^verbatim>\<open>net/http\<close>, \<^verbatim>\<open>net\<close> and \<^verbatim>\<open>strings\<close>
  packages. The operations it calls are modelled here after the library's documented
  behaviour, as executable functions over byte strings (\<^typ>\<open>string\<close> is a list of
  8-bit characters, as a Go \<^verbatim>\<open>string\<close> is a sequence of bytes).
\<close>

subsection \<open>Header maps\<close>

text \<open>
  \<^verbatim>\<open>http.Header\<close> is \<^verbatim>\<open>map[string][]string\<close>. Indexing the map (\<^verbatim>\<open>h["K"]\<close>) uses
  the key as written; the methods \<^verbatim>\<open>Get\<close>, \<^verbatim>\<open>Set\<close> and \<^verbatim>\<open>Del\<close> first put the key
  into canonical form (\<^verbatim>\<open>textproto.CanonicalMIMEHeaderKey\<close>): the first letter and
  every letter after a hyphen in upper case, the others in lower case, and a key with
  a byte that is no token character left as it is.
\<close>

type_synonym Header = "string \<rightharpoonup> string list"

definition validHeaderFieldByte :: "char \<Rightarrow> bool" where
  "validHeaderFieldByte c \<longleftrightarrow>
     c \<in> set (''abcdefghijklmnopqrstuvwxyz'' @ ''ABCDEFGHIJKLMNOPQRSTUVWXYZ''
               @ ''0123456789'' @ ''!#$%&*+-.^_|~'' @ [CHR 0x27, CHR 0x60])"

definition isLower :: "char \<Rightarrow> bool" where
  "isLower c \<longleftrightarrow> 97 \<le> (of_char c :: nat) \<and> (of_char c :: nat) \<le> 122"

definition isUpper :: "char \<Rightarrow> bool" where
  "isUpper c \<longleftrightarrow> 65 \<le> (of_char c :: nat) \<and> (of_char c :: nat) \<le> 90"

definition toUpper :: "char \<Rightarrow> char" where
  "toUpper c = char_of (of_char c - (32::nat))"

definition toLower :: "char \<Rightarrow> char" where
  "toLower c = char_of (of_char c + (32::nat))"

fun canonicalise :: "bool \<Rightarrow> string \<Rightarrow> string" where
  "canonicalise upper [] = []"
| "canonicalise upper (c # cs) =
     (let c' = (if upper \<and> isLower c then toUpper c
                else if \<not> upper \<and> isUpper c then toLower c
                else c)
      in c' # canonicalise (c' = CHR ''-'') cs)"

definition CanonicalMIMEHeaderKey :: "string \<Rightarrow> string" where
  "CanonicalMIMEHeaderKey s =
     (if list_all validHeaderFieldByte s then canonicalise True s else s)"

definition Get :: "Header \<Rightarrow> string \<Rightarrow> string" where
  \<comment> \<open>the first value of the key, or the empty string\<close>
  "Get h key =
     (case h (CanonicalMIMEHeaderKey key) of
        None \<Rightarrow> ''''
      | Some [] \<Rightarrow> ''''
      | Some (v # _) \<Rightarrow> v)"

definition Set :: "Header \<Rightarrow> string \<Rightarrow> string \<Rightarrow> Header" where
  \<comment> \<open>replaces every value of the key by the single one given\<close>
  "Set h key val = h(CanonicalMIMEHeaderKey key \<mapsto> [val])"

definition Del :: "Header \<Rightarrow> string \<Rightarrow> Header" where
  "Del h key = h(CanonicalMIMEHeaderKey key := None)"

subsection \<open>Strings\<close>

text \<open>
  \<^verbatim>\<open>strings.Join(elems, sep)\<close>; \<^verbatim>\<open>strings.Split(s, sep)\<close> for a separator of one byte
  (the proxy splits at \<^verbatim>\<open>","\<close>), which returns at least one piece; and
  \<^verbatim>\<open>strings.TrimSpace\<close>, which removes the leading and the trailing white space as
  Unicode defines it. The latter reads UTF-8: white space is the six ASCII characters
  and the encodings of U+0085, U+00A0, U+1680, U+2000 to U+200A, U+2028, U+2029,
  U+202F, U+205F and U+3000; a byte that starts no valid encoding is not white space.
\<close>

fun Join :: "string list \<Rightarrow> string \<Rightarrow> string" where
  "Join [] sep = ''''"
| "Join [x] sep = x"
| "Join (x # y # ys) sep = x @ sep @ Join (y # ys) sep"

fun Split :: "string \<Rightarrow> char \<Rightarrow> string list" where
  "Split [] sep = [[]]"
| "Split (c # cs) sep =
     (if c = sep then [] # Split cs sep
      else (case Split cs sep of
              [] \<Rightarrow> [[c]]
            | piece # pieces \<Rightarrow> (c # piece) # pieces))"

definition spaces :: "string list" where
  "spaces =
     map (\<lambda>c. [c]) [CHR 0x09, CHR 0x0A, CHR 0x0B, CHR 0x0C, CHR 0x0D, CHR 0x20]
     @ [[CHR 0xC2, CHR 0x85], [CHR 0xC2, CHR 0xA0], [CHR 0xE1, CHR 0x9A, CHR 0x80]]
     @ map (\<lambda>c. [CHR 0xE2, CHR 0x80, c])
         [CHR 0x80, CHR 0x81, CHR 0x82, CHR 0x83, CHR 0x84, CHR 0x85, CHR 0x86,
          CHR 0x87, CHR 0x88, CHR 0x89, CHR 0x8A, CHR 0xA8, CHR 0xA9, CHR 0xAF]
     @ [[CHR 0xE2, CHR 0x81, CHR 0x9F], [CHR 0xE3, CHR 0x80, CHR 0x80]]"

function trimPrefixes :: "string list \<Rightarrow> string \<Rightarrow> string" where
  "trimPrefixes toks s =
     (case find (\<lambda>t. t \<noteq> [] \<and> prefix t s) toks of
        None \<Rightarrow> s
      | Some t \<Rightarrow> trimPrefixes toks (drop (length t) s))"
  by pat_completeness auto
termination
proof (relation "measure (\<lambda>(toks, s). length s)")
  show "wf (measure (\<lambda>(toks, s). length s))"
    by simp
next
  fix toks :: "string list" and s t :: string
  assume "find (\<lambda>t. t \<noteq> [] \<and> prefix t s) toks = Some t"
  then have "t \<noteq> []" and "prefix t s"
    by (auto simp: find_Some_iff)
  then have "s \<noteq> []" and "0 < length t"
    by auto
  then show "((toks, drop (length t) s), (toks, s)) \<in> measure (\<lambda>(toks, s). length s)"
    by simp
qed

declare trimPrefixes.simps [simp del]

definition TrimSpace :: "string \<Rightarrow> string" where
  "TrimSpace s = rev (trimPrefixes (map rev spaces) (rev (trimPrefixes spaces s)))"

subsection \<open>Socket addresses\<close>

text \<open>
  \<^verbatim>\<open>net.SplitHostPort\<close> splits \<^verbatim>\<open>host:port\<close>, \<^verbatim>\<open>[host]:port\<close> and their variants
  with a zone into host and port, or returns an \<^verbatim>\<open>AddrError\<close> with the reason and
  the address. \<open>IndexByte\<close> and \<open>LastIndexByte\<close> give the position of the first and of
  the last occurrence of a byte, where Go returns -1 for none.
\<close>

datatype AddrError = AddrError (Err: string) (Addr: string)

definition IndexByte :: "string \<Rightarrow> char \<Rightarrow> nat option" where
  "IndexByte s c = (if c \<in> set s then Some (length (takeWhile (\<lambda>x. x \<noteq> c) s)) else None)"

definition LastIndexByte :: "string \<Rightarrow> char \<Rightarrow> nat option" where
  "LastIndexByte s c =
     (if c \<in> set s then Some (length s - 1 - length (takeWhile (\<lambda>x. x \<noteq> c) (rev s)))
      else None)"

definition checkBrackets ::
  "string \<Rightarrow> nat \<Rightarrow> nat \<Rightarrow> nat \<Rightarrow> string \<Rightarrow> AddrError + string \<times> string" where
  \<comment> \<open>the end of \<^verbatim>\<open>SplitHostPort\<close>, after the host is found:
      \<open>j\<close> and \<open>k\<close> are the positions from where no bracket may follow\<close>
  "checkBrackets hostport i j k host =
     (if IndexByte (drop j hostport) (CHR ''['') \<noteq> None
        then Inl (AddrError (''unexpected '' @ [CHR 0x27, CHR ''['', CHR 0x27] @ '' in address'') hostport)
      else if IndexByte (drop k hostport) (CHR '']'') \<noteq> None
        then Inl (AddrError (''unexpected '' @ [CHR 0x27, CHR '']'', CHR 0x27] @ '' in address'') hostport)
      else Inr (host, drop (i + 1) hostport))"

definition SplitHostPort :: "string \<Rightarrow> AddrError + string \<times> string" where
  "SplitHostPort hostport =
     (case LastIndexByte hostport (CHR '':'') of
        None \<Rightarrow> Inl (AddrError ''missing port in address'' hostport)
      | Some i \<Rightarrow>
          if hostport ! 0 = CHR ''['' then
            (case IndexByte hostport (CHR '']'') of
               None \<Rightarrow> Inl (AddrError (''missing '' @ [CHR 0x27, CHR '']'', CHR 0x27] @ '' in address'') hostport)
             | Some e \<Rightarrow>
                 if e + 1 = length hostport
                   then Inl (AddrError ''missing port in address'' hostport)
                 else if e + 1 = i
                   then checkBrackets hostport i 1 (e + 1) (take (e - 1) (drop 1 hostport))
                 else if hostport ! (e + 1) = CHR '':''
                   then Inl (AddrError ''too many colons in address'' hostport)
                 else Inl (AddrError ''missing port in address'' hostport))
          else
            (let host = take i hostport in
             if IndexByte host (CHR '':'') \<noteq> None
               then Inl (AddrError ''too many colons in address'' hostport)
             else checkBrackets hostport i 0 0 host))"

section \<open>Requests\<close>

text \<open>
  The fields of \<^verbatim>\<open>http.Request\<close> and \<^verbatim>\<open>url.URL\<close> that the proxy reads or writes.
  \<open>TLS\<close> is \<^verbatim>\<open>req.TLS\<close>, a pointer that is \<^verbatim>\<open>nil\<close> for a connection without TLS;
  \<open>Body\<close> is the content of the body stream.
\<close>

record URL =
  Scheme :: string
  URL_Host :: string
  Path :: string
  RawPath :: string
  RawQuery :: string

datatype ConnectionState = ConnectionState (HandshakeComplete: bool)

record Request =
  Method :: string
  URL :: URL
  Header :: Header
  Body :: string
  Host :: string
  RemoteAddr :: string
  TLS :: "ConnectionState option"

section \<open>Identity resolution: \<^verbatim>\<open>getRealIP\<close>\<close>

definition getRealIP :: "Request \<Rightarrow> string" where
  "getRealIP r =
     (let xri = Get (Header r) ''X-Real-IP'' in
      if xri \<noteq> '''' then xri
      else
        let xff = Get (Header r) ''X-Forwarded-For'';
            ips = Split xff (CHR '','')
        in
        if xff \<noteq> '''' \<and> length ips > 0 then TrimSpace (ips ! 0)
        else
          (case SplitHostPort (RemoteAddr r) of
             Inl err \<Rightarrow> RemoteAddr r
           | Inr (ip, _) \<Rightarrow> ip))"

section \<open>Header rewriting: \<^verbatim>\<open>proxy.Director\<close>\<close>

text \<open>
  \<^verbatim>\<open>httputil.NewSingleHostReverseProxy(target)\<close> installs a director that rewrites
  the URL of the outgoing request and nothing else (\<^verbatim>\<open>rewriteRequestURL\<close>, Go 1.20
  and later): scheme and host are the target's, the paths are joined, and the queries
  are joined with \<^verbatim>\<open>&\<close> when both are non-empty. The joining of the paths
  (\<^verbatim>\<open>joinURLPath\<close>), which depends on URL escaping, is a parameter.
\<close>

definition rewriteRequestURL ::
  "(URL \<Rightarrow> URL \<Rightarrow> string \<times> string) \<Rightarrow> URL \<Rightarrow> Request \<Rightarrow> Request" where
  "rewriteRequestURL joinURLPath target req =
     (let targetQuery = RawQuery target;
          (path, rawpath) = joinURLPath target (URL req);
          u = (URL req)\<lparr>Scheme := Scheme target, URL_Host := URL_Host target,
                         Path := path, RawPath := rawpath\<rparr>;
          u = (if targetQuery = '''' \<or> RawQuery u = ''''
               then u\<lparr>RawQuery := targetQuery @ RawQuery u\<rparr>
               else u\<lparr>RawQuery := targetQuery @ ''&'' @ RawQuery u\<rparr>)
      in req\<lparr>URL := u\<rparr>)"

text \<open>
  The director of \<^verbatim>\<open>main.go\<close> (lines 137 to 191) calls the original director and
  then runs five blocks of statements on the request, one after the other. Each block
  is a function here; the request is mutated in place in Go and passed through in the
  model. The log line at the end of the director does not touch the request and is
  left out.
\<close>

definition removeHopHeaders :: "Request \<Rightarrow> Request" where
  \<comment> \<open>lines 140 to 143\<close>
  "removeHopHeaders req =
     (let req = req\<lparr>Header := Del (Header req) ''Connection''\<rparr>;
          req = req\<lparr>Header := Del (Header req) ''Upgrade''\<rparr>;
          req = req\<lparr>Header := Del (Header req) ''Transfer-Encoding''\<rparr>
      in req)"

definition setHost :: "URL \<Rightarrow> Request \<Rightarrow> Request" where
  \<comment> \<open>line 149; the original host is read before, at line 146\<close>
  "setHost target req = req\<lparr>Host := URL_Host target\<rparr>"

definition handleXForwardedFor :: "Request \<Rightarrow> Request" where
  \<comment> \<open>lines 151 to 165\<close>
  "handleXForwardedFor req =
     (let xri = Get (Header req) ''X-Real-IP'' in
      if xri \<noteq> '''' then req\<lparr>Header := Set (Header req) ''X-Forwarded-For'' xri\<rparr>
      else
        (case SplitHostPort (RemoteAddr req) of
           Inr (clientIP, _) \<Rightarrow>
             (let clientIP =
                    (case Header req ''X-Forwarded-For'' of
                       Some prior \<Rightarrow> Join prior '', '' @ '', '' @ clientIP
                     | None \<Rightarrow> clientIP)
              in req\<lparr>Header := Set (Header req) ''X-Forwarded-For'' clientIP\<rparr>)
         | Inl err \<Rightarrow> req))"

definition setXForwardedProto :: "Request \<Rightarrow> Request" where
  \<comment> \<open>lines 167 to 181\<close>
  "setXForwardedProto req =
     (case Header req ''X-Forwarded-Proto'' of
        Some _ \<Rightarrow> req
      | None \<Rightarrow>
          if TLS req \<noteq> None
            then req\<lparr>Header := Set (Header req) ''X-Forwarded-Proto'' ''https''\<rparr>
          else
            (let proto = Get (Header req) ''X-Forwarded-Proto'' in
             if proto \<noteq> ''''
               then req\<lparr>Header := Set (Header req) ''X-Forwarded-Proto'' proto\<rparr>
             else req\<lparr>Header := Set (Header req) ''X-Forwarded-Proto'' ''http''\<rparr>))"

definition setXForwardedHost :: "string \<Rightarrow> Request \<Rightarrow> Request" where
  \<comment> \<open>lines 183 to 186\<close>
  "setXForwardedHost originalHost req =
     (case Header req ''X-Forwarded-Host'' of
        Some _ \<Rightarrow> req
      | None \<Rightarrow> req\<lparr>Header := Set (Header req) ''X-Forwarded-Host'' originalHost\<rparr>)"

definition Director :: "(Request \<Rightarrow> Request) \<Rightarrow> URL \<Rightarrow> Request \<Rightarrow> Request" where
  "Director originalDirector target req =
     (let req = originalDirector req;
          req = removeHopHeaders req;
          originalHost = Host req;
          req = setHost target req;
          req = handleXForwardedFor req;
          req = setXForwardedProto req;
          req = setXForwardedHost originalHost req
      in req)"

definition proxyDirector ::
  "(URL \<Rightarrow> URL \<Rightarrow> string \<times> string) \<Rightarrow> URL \<Rightarrow> Request \<Rightarrow> Request" where
  \<comment> \<open>\<^verbatim>\<open>proxy.Director\<close> as \<^verbatim>\<open>main\<close> leaves it: \<^verbatim>\<open>originalDirector\<close> is the
      director of \<^verbatim>\<open>NewSingleHostReverseProxy(target)\<close>\<close>
  "proxyDirector joinURLPath target =
     Director (rewriteRequestURL joinURLPath target) target"

section \<open>Failures: \<^verbatim>\<open>responseWriter\<close> and \<^verbatim>\<open>proxy.ErrorHandler\<close>\<close>

text \<open>
  The state of an \<^verbatim>\<open>http.ResponseWriter\<close>: the header map the handler edits, the
  status line and headers once they are sent (a later \<^verbatim>\<open>WriteHeader\<close> is ignored),
  and the bytes of the body written so far. A \<^verbatim>\<open>Write\<close> before any \<^verbatim>\<open>WriteHeader\<close>
  sends status 200 first.
\<close>

record ResponseWriter =
  header :: Header
  sent :: "(int \<times> Header) option"
  body :: string

definition http_WriteHeader :: "ResponseWriter \<Rightarrow> int \<Rightarrow> ResponseWriter" where
  "http_WriteHeader w code =
     (case sent w of
        Some _ \<Rightarrow> w
      | None \<Rightarrow> w\<lparr>sent := Some (code, header w)\<rparr>)"

definition http_Write :: "ResponseWriter \<Rightarrow> string \<Rightarrow> ResponseWriter" where
  "http_Write w p =
     (let w = http_WriteHeader w 200 in w\<lparr>body := body w @ p\<rparr>)"

text \<open>
  \<^verbatim>\<open>responseWriter\<close> (lines 15 to 23) embeds the writer and records the status code
  given to \<^verbatim>\<open>WriteHeader\<close>; \<^verbatim>\<open>Header\<close> and \<^verbatim>\<open>Write\<close> are the embedded writer's.
\<close>

record responseWriter =
  embedded :: ResponseWriter
  statusCode :: int

definition WriteHeader :: "responseWriter \<Rightarrow> int \<Rightarrow> responseWriter" where
  "WriteHeader rw code =
     (let rw = rw\<lparr>statusCode := code\<rparr>
      in rw\<lparr>embedded := http_WriteHeader (embedded rw) code\<rparr>)"

definition Write :: "responseWriter \<Rightarrow> string \<Rightarrow> responseWriter" where
  "Write rw p = rw\<lparr>embedded := http_Write (embedded rw) p\<rparr>"

text \<open>
  \<^verbatim>\<open>http.Error(w, error, code)\<close> replaces the content headers, sends the status and
  writes the message and a newline.
\<close>

definition http_Error :: "responseWriter \<Rightarrow> string \<Rightarrow> int \<Rightarrow> responseWriter" where
  "http_Error w error code =
     (let h = header (embedded w);
          h = Del h ''Content-Length'';
          h = Set h ''Content-Type'' ''text/plain; charset=utf-8'';
          h = Set h ''X-Content-Type-Options'' ''nosniff'';
          w = w\<lparr>embedded := (embedded w)\<lparr>header := h\<rparr>\<rparr>;
          w = WriteHeader w code
      in Write w (error @ [CHR 0x0A]))"

definition StatusBadGateway :: int where
  "StatusBadGateway = 502"

text \<open>
  The error handler (lines 107 to 110) logs one line with the error and answers with
  \<^verbatim>\<open>http.Error\<close>. It returns the log line and the writer; \<open>err\<close> is the message of
  the Go error and \<open>URL_String\<close> stands for \<^verbatim>\<open>(*url.URL).String\<close>.
\<close>

definition ErrorHandler ::
  "(URL \<Rightarrow> string) \<Rightarrow> responseWriter \<Rightarrow> Request \<Rightarrow> string \<Rightarrow> string \<times> responseWriter" where
  "ErrorHandler URL_String w r err =
     (''Proxy error for '' @ Method r @ '' '' @ URL_String (URL r) @ '': '' @ err,
      http_Error w ''Proxy error'' StatusBadGateway)"

section \<open>The resolution order in the specification's words\<close>

text \<open>
  The specification describes identity resolution as three signals in priority order,
  the first non-empty one winning: the \<^verbatim>\<open>X-Real-IP\<close> value, the first address of
  the \<^verbatim>\<open>X-Forwarded-For\<close> chain trimmed of white space, and the remote socket
  address without its port (the raw address when it does not parse).
  \<open>resolveIdentity\<close> is that description, to compare \<open>getRealIP\<close> with.
\<close>

fun firstNonEmpty :: "string list \<Rightarrow> string" where
  "firstNonEmpty [] = ''''"
| "firstNonEmpty [x] = x"
| "firstNonEmpty (x # y # ys) = (if x \<noteq> '''' then x else firstNonEmpty (y # ys))"

definition socketHost :: "Request \<Rightarrow> string" where
  "socketHost r =
     (case SplitHostPort (RemoteAddr r) of
        Inl err \<Rightarrow> RemoteAddr r
      | Inr (ip, _) \<Rightarrow> ip)"

definition resolveIdentity :: "Request \<Rightarrow> string" where
  "resolveIdentity r =
     firstNonEmpty
       [Get (Header r) ''X-Real-IP'',
        TrimSpace (takeWhile (\<lambda>c. c \<noteq> CHR '','') (Get (Header r) ''X-Forwarded-For'')),
        socketHost r]"

section \<open>Concrete requests\<close>

text \<open>
  The upstream \<^verbatim>\<open>http://backend.internal:9000\<close>; the joining of two paths without
  escapes (\<^verbatim>\<open>singleJoiningSlash\<close>, which is what \<^verbatim>\<open>joinURLPath\<close> does then); and an
  inbound \<^verbatim>\<open>GET /items/42\<close> for the host \<^verbatim>\<open>shop.example.org\<close> with the given
  headers and remote address, over TLS or not.
\<close>

definition backend :: URL where
  "backend = \<lparr>Scheme = ''http'', URL_Host = ''backend.internal:9000'', Path = '''',
              RawPath = '''', RawQuery = ''''\<rparr>"

definition singleJoiningSlash :: "string \<Rightarrow> string \<Rightarrow> string" where
  "singleJoiningSlash a b =
     (let aslash = (a \<noteq> [] \<and> last a = CHR ''/'');
          bslash = (b \<noteq> [] \<and> hd b = CHR ''/'')
      in if aslash \<and> bslash then a @ tl b
         else if \<not> aslash \<and> \<not> bslash then a @ ''/'' @ b
         else a @ b)"

definition joinPlainPaths :: "URL \<Rightarrow> URL \<Rightarrow> string \<times> string" where
  "joinPlainPaths a b = (singleJoiningSlash (Path a) (Path b), '''')"

definition inbound :: "(string \<times> string list) list \<Rightarrow> string \<Rightarrow> bool \<Rightarrow> Request" where
  "inbound hs addr tls =
     \<lparr>Method = ''GET'',
      URL = \<lparr>Scheme = '''', URL_Host = '''', Path = ''/items/42'', RawPath = '''',
             RawQuery = ''''\<rparr>,
      Header = map_of hs,
      Body = '''',
      Host = ''shop.example.org'',
      RemoteAddr = addr,
      TLS = (if tls then Some (ConnectionState True) else None)\<rparr>"

definition freshWriter :: responseWriter where
  \<comment> \<open>the writer as \<^verbatim>\<open>logMiddleware\<close> builds it (line 127), nothing sent yet\<close>
  "freshWriter = \<lparr>embedded = \<lparr>header = Map.empty, sent = None, body = ''''\<rparr>,
                  statusCode = 200\<rparr>"

section \<open>Properties of the library operations and of the rewriting blocks\<close>


lemma canonical_keys:
  "CanonicalMIMEHeaderKey ''X-Real-IP'' = ''X-Real-Ip''"
  "CanonicalMIMEHeaderKey ''X-Forwarded-For'' = ''X-Forwarded-For''"
  "CanonicalMIMEHeaderKey ''X-Forwarded-Proto'' = ''X-Forwarded-Proto''"
  "CanonicalMIMEHeaderKey ''X-Forwarded-Host'' = ''X-Forwarded-Host''"
  "CanonicalMIMEHeaderKey ''Connection'' = ''Connection''"
  "CanonicalMIMEHeaderKey ''Upgrade'' = ''Upgrade''"
  "CanonicalMIMEHeaderKey ''Transfer-Encoding'' = ''Transfer-Encoding''"
  by code_simp+

lemma Header_removeHopHeaders:
  "Header (removeHopHeaders req) =
     (Header req)(''Connection'' := None, ''Upgrade'' := None, ''Transfer-Encoding'' := None)"
  by (simp add: removeHopHeaders_def Del_def canonical_keys)

lemma removeHopHeaders_other [simp]:
  "Method (removeHopHeaders req) = Method req"
  "URL (removeHopHeaders req) = URL req"
  "Body (removeHopHeaders req) = Body req"
  "Host (removeHopHeaders req) = Host req"
  "RemoteAddr (removeHopHeaders req) = RemoteAddr req"
  "TLS (removeHopHeaders req) = TLS req"
  by (simp_all add: removeHopHeaders_def)

lemma Header_handleXForwardedFor:
  "Header (handleXForwardedFor req) =
     (if Get (Header req) ''X-Real-IP'' \<noteq> ''''
        then (Header req)(''X-Forwarded-For'' \<mapsto> [Get (Header req) ''X-Real-IP''])
      else
        (case SplitHostPort (RemoteAddr req) of
           Inl err \<Rightarrow> Header req
         | Inr (clientIP, port) \<Rightarrow>
             (case Header req ''X-Forwarded-For'' of
                None \<Rightarrow> (Header req)(''X-Forwarded-For'' \<mapsto> [clientIP])
              | Some prior \<Rightarrow>
                  (Header req)(''X-Forwarded-For'' \<mapsto> [Join prior '', '' @ '', '' @ clientIP]))))"
  by (simp add: handleXForwardedFor_def Set_def canonical_keys Let_def
           split: sum.splits prod.splits option.splits)

lemma handleXForwardedFor_other [simp]:
  "Method (handleXForwardedFor req) = Method req"
  "URL (handleXForwardedFor req) = URL req"
  "Body (handleXForwardedFor req) = Body req"
  "Host (handleXForwardedFor req) = Host req"
  "RemoteAddr (handleXForwardedFor req) = RemoteAddr req"
  "TLS (handleXForwardedFor req) = TLS req"
  by (simp_all add: handleXForwardedFor_def Let_def split: sum.splits prod.splits)

lemma Header_setXForwardedProto:
  "Header (setXForwardedProto req) =
     (case Header req ''X-Forwarded-Proto'' of
        Some v \<Rightarrow> Header req
      | None \<Rightarrow> (Header req)(''X-Forwarded-Proto'' \<mapsto>
                   [if TLS req \<noteq> None then ''https'' else ''http'']))"
  by (auto simp: setXForwardedProto_def Set_def Get_def canonical_keys Let_def
           split: option.splits)

lemma setXForwardedProto_other [simp]:
  "Method (setXForwardedProto req) = Method req"
  "URL (setXForwardedProto req) = URL req"
  "Body (setXForwardedProto req) = Body req"
  "Host (setXForwardedProto req) = Host req"
  "RemoteAddr (setXForwardedProto req) = RemoteAddr req"
  "TLS (setXForwardedProto req) = TLS req"
  by (simp_all add: setXForwardedProto_def Let_def split: option.splits)

lemma Header_setXForwardedHost:
  "Header (setXForwardedHost originalHost req) =
     (case Header req ''X-Forwarded-Host'' of
        Some v \<Rightarrow> Header req
      | None \<Rightarrow> (Header req)(''X-Forwarded-Host'' \<mapsto> [originalHost]))"
  by (simp add: setXForwardedHost_def Set_def canonical_keys split: option.splits)

lemma setXForwardedHost_other [simp]:
  "Method (setXForwardedHost originalHost req) = Method req"
  "URL (setXForwardedHost originalHost req) = URL req"
  "Body (setXForwardedHost originalHost req) = Body req"
  "Host (setXForwardedHost originalHost req) = Host req"
  "RemoteAddr (setXForwardedHost originalHost req) = RemoteAddr req"
  "TLS (setXForwardedHost originalHost req) = TLS req"
  by (simp_all add: setXForwardedHost_def split: option.splits)

lemma rewriteRequestURL_other [simp]:
  "Method (rewriteRequestURL joinURLPath target req) = Method req"
  "Header (rewriteRequestURL joinURLPath target req) = Header req"
  "Body (rewriteRequestURL joinURLPath target req) = Body req"
  "Host (rewriteRequestURL joinURLPath target req) = Host req"
  "RemoteAddr (rewriteRequestURL joinURLPath target req) = RemoteAddr req"
  "TLS (rewriteRequestURL joinURLPath target req) = TLS req"
  by (simp_all add: rewriteRequestURL_def Let_def split: prod.splits)

lemma Get_X_Real_IP_removeHopHeaders:
  "Get (Header (removeHopHeaders req)) ''X-Real-IP'' = Get (Header req) ''X-Real-IP''"
  by (simp add: Get_def canonical_keys Header_removeHopHeaders)


lemma removeHopHeaders_key:
  "Header (removeHopHeaders req) k =
     (if k \<in> {''Connection'', ''Upgrade'', ''Transfer-Encoding''} then None else Header req k)"
  by (simp add: Header_removeHopHeaders)

lemma handleXForwardedFor_key:
  "k \<noteq> ''X-Forwarded-For'' \<Longrightarrow> Header (handleXForwardedFor req) k = Header req k"
  by (simp add: Header_handleXForwardedFor split: sum.splits prod.splits option.splits)

lemma handleXForwardedFor_chain:
  "Header (handleXForwardedFor req) ''X-Forwarded-For'' =
     (if Get (Header req) ''X-Real-IP'' \<noteq> '''' then Some [Get (Header req) ''X-Real-IP'']
      else
        (case SplitHostPort (RemoteAddr req) of
           Inl err \<Rightarrow> Header req ''X-Forwarded-For''
         | Inr (clientIP, port) \<Rightarrow>
             (case Header req ''X-Forwarded-For'' of
                None \<Rightarrow> Some [clientIP]
              | Some prior \<Rightarrow> Some [Join prior '', '' @ '', '' @ clientIP])))"
  by (simp add: Header_handleXForwardedFor split: sum.splits prod.splits option.splits)

lemma setXForwardedProto_key:
  "k \<noteq> ''X-Forwarded-Proto'' \<Longrightarrow> Header (setXForwardedProto req) k = Header req k"
  by (simp add: Header_setXForwardedProto split: option.splits)

lemma setXForwardedProto_proto:
  "Header (setXForwardedProto req) ''X-Forwarded-Proto'' =
     (case Header req ''X-Forwarded-Proto'' of
        Some v \<Rightarrow> Some v
      | None \<Rightarrow> Some [if TLS req \<noteq> None then ''https'' else ''http''])"
  by (simp add: Header_setXForwardedProto split: option.splits)

lemma setXForwardedHost_key:
  "k \<noteq> ''X-Forwarded-Host'' \<Longrightarrow> Header (setXForwardedHost originalHost req) k = Header req k"
  by (simp add: Header_setXForwardedHost split: option.splits)

lemma setXForwardedHost_host:
  "Header (setXForwardedHost originalHost req) ''X-Forwarded-Host'' =
     (case Header req ''X-Forwarded-Host'' of
        Some v \<Rightarrow> Some v
      | None \<Rightarrow> Some [originalHost])"
  by (simp add: Header_setXForwardedHost split: option.splits)

lemma setHost_fields [simp]:
  "Method (setHost target req) = Method req"
  "URL (setHost target req) = URL req"
  "Header (setHost target req) = Header req"
  "Body (setHost target req) = Body req"
  "Host (setHost target req) = URL_Host target"
  "RemoteAddr (setHost target req) = RemoteAddr req"
  "TLS (setHost target req) = TLS req"
  by (simp_all add: setHost_def)

subsection \<open>The director, field by field\<close>

lemma Director_unfold:
  "Director od target req =
     setXForwardedHost (Host (od req))
       (setXForwardedProto (handleXForwardedFor (setHost target (removeHopHeaders (od req)))))"
  by (simp add: Director_def Let_def)

lemma Director_fields:
  "Method (Director od target req) = Method (od req)"
  "URL (Director od target req) = URL (od req)"
  "Body (Director od target req) = Body (od req)"
  "Host (Director od target req) = URL_Host target"
  "RemoteAddr (Director od target req) = RemoteAddr (od req)"
  "TLS (Director od target req) = TLS (od req)"
  by (simp_all add: Director_unfold)

lemma Director_X_Forwarded_For:
  "Header (Director od target req) ''X-Forwarded-For'' =
     (if Get (Header (od req)) ''X-Real-IP'' \<noteq> ''''
        then Some [Get (Header (od req)) ''X-Real-IP'']
      else
        (case SplitHostPort (RemoteAddr (od req)) of
           Inl err \<Rightarrow> Header (od req) ''X-Forwarded-For''
         | Inr (clientIP, port) \<Rightarrow>
             (case Header (od req) ''X-Forwarded-For'' of
                None \<Rightarrow> Some [clientIP]
              | Some prior \<Rightarrow> Some [Join prior '', '' @ '', '' @ clientIP])))"
proof -
  let ?r = "setHost target (removeHopHeaders (od req))"
  have 1: "Header (Director od target req) ''X-Forwarded-For''
             = Header (handleXForwardedFor ?r) ''X-Forwarded-For''"
    by (simp add: Director_unfold setXForwardedHost_key setXForwardedProto_key)
  have 2: "Get (Header ?r) ''X-Real-IP'' = Get (Header (od req)) ''X-Real-IP''"
    by (simp add: Get_X_Real_IP_removeHopHeaders)
  have 3: "RemoteAddr ?r = RemoteAddr (od req)"
    by simp
  have 4: "Header ?r ''X-Forwarded-For'' = Header (od req) ''X-Forwarded-For''"
    by (simp add: removeHopHeaders_key)
  show ?thesis
    unfolding 1 handleXForwardedFor_chain 2 3 4 by (rule refl)
qed

lemma Director_X_Forwarded_Proto:
  "Header (Director od target req) ''X-Forwarded-Proto'' =
     (case Header (od req) ''X-Forwarded-Proto'' of
        Some v \<Rightarrow> Some v
      | None \<Rightarrow> Some [if TLS (od req) \<noteq> None then ''https'' else ''http''])"
proof -
  let ?r = "handleXForwardedFor (setHost target (removeHopHeaders (od req)))"
  have 1: "Header (Director od target req) ''X-Forwarded-Proto''
             = Header (setXForwardedProto ?r) ''X-Forwarded-Proto''"
    by (simp add: Director_unfold setXForwardedHost_key)
  have 2: "TLS ?r = TLS (od req)"
    by simp
  have 3: "Header ?r ''X-Forwarded-Proto'' = Header (od req) ''X-Forwarded-Proto''"
    by (simp add: handleXForwardedFor_key removeHopHeaders_key)
  show ?thesis
    unfolding 1 setXForwardedProto_proto 2 3 by (rule refl)
qed

lemma Director_X_Forwarded_Host:
  "Header (Director od target req) ''X-Forwarded-Host'' =
     (case Header (od req) ''X-Forwarded-Host'' of
        Some v \<Rightarrow> Some v
      | None \<Rightarrow> Some [Host (od req)])"
  by (simp add: Director_unfold setXForwardedHost_host setXForwardedProto_key
        handleXForwardedFor_key removeHopHeaders_key)

lemma Director_hop_headers:
  "Header (Director od target req) ''Connection'' = None"
  "Header (Director od target req) ''Upgrade'' = None"
  "Header (Director od target req) ''Transfer-Encoding'' = None"
  by (simp_all add: Director_unfold setXForwardedHost_key setXForwardedProto_key
        handleXForwardedFor_key removeHopHeaders_key)

lemma Director_other_headers:
  assumes "k \<notin> {''Connection'', ''Upgrade'', ''Transfer-Encoding'',
                 ''X-Forwarded-For'', ''X-Forwarded-Proto'', ''X-Forwarded-Host''}"
  shows "Header (Director od target req) k = Header (od req) k"
  using assms
  by (simp add: Director_unfold setXForwardedHost_key setXForwardedProto_key
        handleXForwardedFor_key removeHopHeaders_key)

subsection \<open>Splitting strings and addresses\<close>


lemma Split_first: "\<exists>rest. Split s sep = takeWhile (\<lambda>c. c \<noteq> sep) s # rest"
  by (induction s) auto

lemma Split_nonempty: "0 < length (Split s sep)"
  using Split_first [of s sep] by auto

lemma Split_nth_0: "Split s sep ! 0 = takeWhile (\<lambda>c. c \<noteq> sep) s"
  using Split_first [of s sep] by auto

lemma length_takeWhile_neq:
  "c \<in> set s \<Longrightarrow> length (takeWhile (\<lambda>x. x \<noteq> c) s) < length s"
  by (induction s) auto

lemma LastIndexByte_Some:
  assumes "LastIndexByte s c = Some i"
  shows "i < length s \<and> s ! i = c \<and> c \<notin> set (drop (Suc i) s)"
proof -
  from assms have mem: "c \<in> set s"
    and i: "i = length s - 1 - length (takeWhile (\<lambda>x. x \<noteq> c) (rev s))"
    by (auto simp: LastIndexByte_def split: if_splits)
  let ?n = "length (takeWhile (\<lambda>x. x \<noteq> c) (rev s))"
  from mem have n: "?n < length s"
    using length_takeWhile_neq [of c "rev s"] by simp
  have "rev s ! ?n = c"
    using n nth_length_takeWhile [of "\<lambda>x. x \<noteq> c" "rev s"] by simp
  moreover have "rev s ! ?n = s ! (length s - Suc ?n)"
    using n by (simp add: rev_nth)
  ultimately have at: "s ! i = c"
    using i by simp
  have "drop (Suc i) s = rev (take ?n (rev s))"
    using n i by (simp add: take_rev Suc_diff_Suc)
  also have "take ?n (rev s) = takeWhile (\<lambda>x. x \<noteq> c) (rev s)"
    by (simp add: takeWhile_eq_take [symmetric])
  finally have "c \<notin> set (drop (Suc i) s)"
    by (auto dest: set_takeWhileD)
  with at n i show ?thesis by simp
qed

lemma IndexByte_Some:
  assumes "IndexByte s c = Some e"
  shows "e < length s \<and> s ! e = c \<and> c \<notin> set (take e s)"
proof -
  from assms have mem: "c \<in> set s" and e: "e = length (takeWhile (\<lambda>x. x \<noteq> c) s)"
    by (auto simp: IndexByte_def split: if_splits)
  from mem have lt: "e < length s"
    unfolding e by (rule length_takeWhile_neq)
  have "s ! e = c"
    using lt nth_length_takeWhile [of "\<lambda>x. x \<noteq> c" s] e by simp
  moreover have "take e s = takeWhile (\<lambda>x. x \<noteq> c) s"
    unfolding e by (simp add: takeWhile_eq_take [symmetric])
  then have "c \<notin> set (take e s)"
    by (auto dest: set_takeWhileD)
  ultimately show ?thesis using lt by simp
qed

lemma SplitHostPort_Inr:
  assumes "SplitHostPort hostport = Inr (host, port)"
  shows "hostport = host @ '':'' @ port \<or> hostport = ''['' @ host @ '']:'' @ port"
proof -
  from assms obtain i where i: "LastIndexByte hostport (CHR '':'') = Some i"
    by (auto simp: SplitHostPort_def split: option.splits)
  then have ilt: "i < length hostport" and ati: "hostport ! i = CHR '':''"
    using LastIndexByte_Some by blast+
  have port_split: "hostport = take i hostport @ '':'' @ drop (Suc i) hostport"
    using ilt ati id_take_nth_drop [of i hostport] by simp
  show ?thesis
  proof (cases "hostport ! 0 = CHR ''[''")
    case False
    with assms i have "host = take i hostport" and "port = drop (Suc i) hostport"
      by (auto simp: SplitHostPort_def checkBrackets_def Let_def split: if_splits)
    with port_split show ?thesis by simp
  next
    case True
    with assms i obtain e where e: "IndexByte hostport (CHR '']'') = Some e"
      and ei: "e + 1 = i"
      and host: "host = take (e - 1) (drop 1 hostport)"
      and port: "port = drop (Suc i) hostport"
      by (auto simp: SplitHostPort_def checkBrackets_def Let_def
               split: if_splits option.splits)
    from e have elt: "e < length hostport" and ate: "hostport ! e = CHR '']''"
      using IndexByte_Some by blast+
    from True ate have epos: "0 < e"
      by (cases e) auto
    have "take i hostport = take e hostport @ '']''"
      using ei elt ate take_Suc_conv_app_nth [of e hostport] by auto
    moreover have "take e hostport = ''['' @ take (e - 1) (drop 1 hostport)"
      using epos elt True
      by (cases hostport; cases e) auto
    ultimately show ?thesis
      using port_split host port by simp
  qed
qed

subsection \<open>The concrete requests\<close>


lemma inbound_fields [simp]:
  "Method (inbound hs addr tls) = ''GET''"
  "Header (inbound hs addr tls) = map_of hs"
  "Body (inbound hs addr tls) = ''''"
  "Host (inbound hs addr tls) = ''shop.example.org''"
  "RemoteAddr (inbound hs addr tls) = addr"
  "TLS (inbound hs addr tls) = (if tls then Some (ConnectionState True) else None)"
  by (simp_all add: inbound_def)

lemma proxyDirector_eq:
  "proxyDirector joinURLPath target req =
     Director (rewriteRequestURL joinURLPath target) target req"
  by (simp add: proxyDirector_def)

lemma split_examples:
  "SplitHostPort ''10.0.0.2:443'' = Inr (''10.0.0.2'', ''443'')"
  "SplitHostPort ''@'' = Inl (AddrError ''missing port in address'' ''@'')"
  by code_simp+


subsection \<open>Identity resolution\<close>

lemma trimPrefixes_Nil: "trimPrefixes toks [] = []"
proof -
  have "find (\<lambda>t. t \<noteq> [] \<and> prefix t []) toks = None"
    by (simp add: find_None_iff)
  then show ?thesis
    by (subst trimPrefixes.simps) simp
qed

lemma TrimSpace_Nil: "TrimSpace [] = []"
  by (simp add: TrimSpace_def trimPrefixes_Nil)

lemma Split_not_Nil: "Split s sep \<noteq> []"
  using Split_first [of s sep] by auto

lemma getRealIP_cases:
  "getRealIP r =
     (if Get (Header r) ''X-Real-IP'' \<noteq> '''' then Get (Header r) ''X-Real-IP''
      else if Get (Header r) ''X-Forwarded-For'' \<noteq> ''''
        then TrimSpace (takeWhile (\<lambda>c. c \<noteq> CHR '','') (Get (Header r) ''X-Forwarded-For''))
      else socketHost r)"
  by (simp add: getRealIP_def Let_def Split_not_Nil Split_nth_0 socketHost_def)

lemma trim_examples:
  "TrimSpace (takeWhile (\<lambda>c. c \<noteq> CHR '','') '' 10.0.0.1 , 10.0.0.5'') = ''10.0.0.1''"
  "TrimSpace (takeWhile (\<lambda>c. c \<noteq> CHR '','') '', 10.0.0.1'') = ''''"
  by code_simp+

subsection \<open>Running the chain block twice\<close>


lemma handleXForwardedFor_append:
  assumes "Get (Header req) ''X-Real-IP'' = ''''"
    and "SplitHostPort (RemoteAddr req) = Inr (clientIP, port)"
  shows "\<exists>v. Header (handleXForwardedFor req) ''X-Forwarded-For'' = Some [v]
           \<and> Header (handleXForwardedFor (handleXForwardedFor req)) ''X-Forwarded-For''
               = Some [v @ '', '' @ clientIP]"
proof -
  let ?v = "case Header req ''X-Forwarded-For'' of
              None \<Rightarrow> clientIP
            | Some prior \<Rightarrow> Join prior '', '' @ '', '' @ clientIP"
  have once: "Header (handleXForwardedFor req) = (Header req)(''X-Forwarded-For'' \<mapsto> [?v])"
    using assms by (simp add: Header_handleXForwardedFor split: option.splits)
  then have xri: "Get (Header (handleXForwardedFor req)) ''X-Real-IP'' = ''''"
    using assms(1) by (simp add: Get_def canonical_keys)
  have "Header (handleXForwardedFor (handleXForwardedFor req)) ''X-Forwarded-For''
          = Some [?v @ '', '' @ clientIP]"
    using xri assms(2) once
    by (simp add: Header_handleXForwardedFor [of "handleXForwardedFor req"])
  with once show ?thesis
    by simp
qed

lemma handleXForwardedFor_idem_iff:
  "handleXForwardedFor (handleXForwardedFor req) = handleXForwardedFor req
     \<longleftrightarrow> Get (Header req) ''X-Real-IP'' \<noteq> '''' \<or> isl (SplitHostPort (RemoteAddr req))"
proof (cases "Get (Header req) ''X-Real-IP'' \<noteq> ''''")
  case True
  let ?x = "Get (Header req) ''X-Real-IP''"
  from True have once: "handleXForwardedFor req
      = req\<lparr>Header := (Header req)(''X-Forwarded-For'' \<mapsto> [?x])\<rparr>"
    by (simp add: handleXForwardedFor_def Set_def canonical_keys)
  have "Get (Header (handleXForwardedFor req)) ''X-Real-IP'' = ?x"
    by (simp add: once Get_def canonical_keys)
  with True have "handleXForwardedFor (handleXForwardedFor req)
      = (handleXForwardedFor req)
          \<lparr>Header := (Header (handleXForwardedFor req))(''X-Forwarded-For'' \<mapsto> [?x])\<rparr>"
    by (simp add: handleXForwardedFor_def [of "handleXForwardedFor req"] Set_def canonical_keys)
  also have "\<dots> = handleXForwardedFor req"
    by (simp add: once)
  finally show ?thesis
    using True by simp
next
  case False
  show ?thesis
  proof (cases "SplitHostPort (RemoteAddr req)")
    case (Inl err)
    with False have "handleXForwardedFor req = req"
      by (simp add: handleXForwardedFor_def)
    with Inl show ?thesis
      by simp
  next
    case (Inr hp)
    obtain clientIP port where hp: "hp = (clientIP, port)"
      by (cases hp)
    from False Inr hp obtain v where
      "Header (handleXForwardedFor req) ''X-Forwarded-For'' = Some [v]"
      "Header (handleXForwardedFor (handleXForwardedFor req)) ''X-Forwarded-For''
         = Some [v @ '', '' @ clientIP]"
      using handleXForwardedFor_append [of req clientIP port] by auto
    then have "handleXForwardedFor (handleXForwardedFor req) \<noteq> handleXForwardedFor req"
      by auto
    with False Inr show ?thesis
      by simp
  qed
qed


subsection \<open>Error responses\<close>

lemma http_Error_response:
  "statusCode (http_Error w error code) = code"
  "sent (embedded w) = None \<Longrightarrow>
     map_option fst (sent (embedded (http_Error w error code))) = Some code"
  "body (embedded (http_Error w error code)) = body (embedded w) @ error @ [CHR 0x0A]"
  by (simp_all add: http_Error_def WriteHeader_def Write_def http_Write_def
        http_WriteHeader_def Let_def split: option.splits)


section \<open>The claims about header rewriting\<close>

text \<open>
  The theorems about \<open>proxyDirector\<close> speak of the request as the director leaves
  it, before \<^verbatim>\<open>httputil.ReverseProxy\<close> goes on with it.
\<close>

text \<open>
  C1 (amended). After rewriting, \<^verbatim>\<open>X-Forwarded-For\<close> is the \<^verbatim>\<open>X-Real-IP\<close> value
  alone when that header is non-empty. Otherwise, for a request whose remote address
  splits into host and port, it is the prior values joined by comma and space,
  followed by comma, space and the host (for a single prior value \<open>V\<close>:
  \<open>V\<close>, comma, space, host), and the host alone when there is no prior header.
  Nothing is said here of a remote address that does not split.
\<close>
theorem proxyDirector_X_Forwarded_For:
  "(Get (Header req) ''X-Real-IP'' \<noteq> '''' \<longrightarrow>
      Header (proxyDirector joinURLPath target req) ''X-Forwarded-For''
        = Some [Get (Header req) ''X-Real-IP''])
   \<and> (Get (Header req) ''X-Real-IP'' = ''''
        \<and> SplitHostPort (RemoteAddr req) = Inr (clientIP, port)
        \<and> Header req ''X-Forwarded-For'' = Some prior \<longrightarrow>
      Header (proxyDirector joinURLPath target req) ''X-Forwarded-For''
        = Some [Join prior '', '' @ '', '' @ clientIP])
   \<and> (Get (Header req) ''X-Real-IP'' = ''''
        \<and> SplitHostPort (RemoteAddr req) = Inr (clientIP, port)
        \<and> Header req ''X-Forwarded-For'' = Some [V] \<longrightarrow>
      Header (proxyDirector joinURLPath target req) ''X-Forwarded-For''
        = Some [V @ '', '' @ clientIP])
   \<and> (Get (Header req) ''X-Real-IP'' = ''''
        \<and> SplitHostPort (RemoteAddr req) = Inr (clientIP, port)
        \<and> Header req ''X-Forwarded-For'' = None \<longrightarrow>
      Header (proxyDirector joinURLPath target req) ''X-Forwarded-For''
        = Some [clientIP])"
  by (simp add: proxyDirector_eq Director_X_Forwarded_For)

theorem proxyDirector_X_Forwarded_For_witness:
  "Get (Header (inbound [(''X-Real-Ip'', [''203.0.113.7'']), (''X-Forwarded-For'', [''10.0.0.1''])]
          ''10.0.0.2:443'' True)) ''X-Real-IP'' \<noteq> ''''
   \<and> Header (proxyDirector joinPlainPaths backend
        (inbound [(''X-Real-Ip'', [''203.0.113.7'']), (''X-Forwarded-For'', [''10.0.0.1''])]
          ''10.0.0.2:443'' True)) ''X-Forwarded-For'' = Some [''203.0.113.7'']
   \<and> Get (Header (inbound [(''X-Forwarded-For'', [''10.0.0.1''])] ''10.0.0.2:443'' True))
        ''X-Real-IP'' = ''''
   \<and> SplitHostPort (RemoteAddr (inbound [(''X-Forwarded-For'', [''10.0.0.1''])] ''10.0.0.2:443'' True))
        = Inr (''10.0.0.2'', ''443'')
   \<and> Header (inbound [(''X-Forwarded-For'', [''10.0.0.1''])] ''10.0.0.2:443'' True)
        ''X-Forwarded-For'' = Some [''10.0.0.1'']
   \<and> Header (proxyDirector joinPlainPaths backend
        (inbound [(''X-Forwarded-For'', [''10.0.0.1''])] ''10.0.0.2:443'' True))
        ''X-Forwarded-For'' = Some [''10.0.0.1, 10.0.0.2'']
   \<and> Header (inbound [] ''10.0.0.2:443'' False) ''X-Forwarded-For'' = None
   \<and> Header (proxyDirector joinPlainPaths backend (inbound [] ''10.0.0.2:443'' False))
        ''X-Forwarded-For'' = Some [''10.0.0.2'']"
proof -
  let ?a = "inbound [(''X-Real-Ip'', [''203.0.113.7'']), (''X-Forwarded-For'', [''10.0.0.1''])]
              ''10.0.0.2:443'' True"
  let ?b = "inbound [(''X-Forwarded-For'', [''10.0.0.1''])] ''10.0.0.2:443'' True"
  let ?c = "inbound [] ''10.0.0.2:443'' False"
  have a: "Get (Header ?a) ''X-Real-IP'' = ''203.0.113.7''"
    by (simp add: Get_def canonical_keys)
  have b1: "Get (Header ?b) ''X-Real-IP'' = ''''"
    by (simp add: Get_def canonical_keys)
  have b2: "SplitHostPort (RemoteAddr ?b) = Inr (''10.0.0.2'', ''443'')"
    by (simp add: split_examples)
  have b3: "Header ?b ''X-Forwarded-For'' = Some [''10.0.0.1'']"
    by simp
  have c1: "Get (Header ?c) ''X-Real-IP'' = ''''"
    by (simp add: Get_def)
  have c2: "SplitHostPort (RemoteAddr ?c) = Inr (''10.0.0.2'', ''443'')"
    by (simp add: split_examples)
  have c3: "Header ?c ''X-Forwarded-For'' = None"
    by simp
  have "Header (proxyDirector joinPlainPaths backend ?a) ''X-Forwarded-For''
          = Some [''203.0.113.7'']"
    using proxyDirector_X_Forwarded_For
            [where req = ?a and joinURLPath = joinPlainPaths and target = backend] a
    by simp
  moreover have "Header (proxyDirector joinPlainPaths backend ?b) ''X-Forwarded-For''
          = Some [''10.0.0.1, 10.0.0.2'']"
    using proxyDirector_X_Forwarded_For
            [where req = ?b and joinURLPath = joinPlainPaths and target = backend
               and clientIP = "''10.0.0.2''" and port = "''443''" and V = "''10.0.0.1''"]
          b1 b2 b3
    by simp
  moreover have "Header (proxyDirector joinPlainPaths backend ?c) ''X-Forwarded-For''
          = Some [''10.0.0.2'']"
    using proxyDirector_X_Forwarded_For
            [where req = ?c and joinURLPath = joinPlainPaths and target = backend
               and clientIP = "''10.0.0.2''" and port = "''443''"]
          c1 c2 c3
    by simp
  ultimately show ?thesis
    using a b1 b2 b3 c3 by simp
qed

text \<open>
  C1 as stated fails for a remote address without a port: the request has neither
  \<^verbatim>\<open>X-Real-IP\<close> nor a prior chain, its address resolves to the raw string \<^verbatim>\<open>@\<close>,
  and the rewritten request carries no \<^verbatim>\<open>X-Forwarded-For\<close> at all.
\<close>

theorem proxyDirector_unparsable_counterexample:
  "Get (Header (inbound [] ''@'' False)) ''X-Real-IP'' = ''''
   \<and> Header (inbound [] ''@'' False) ''X-Forwarded-For'' = None
   \<and> socketHost (inbound [] ''@'' False) = ''@''
   \<and> Header (proxyDirector joinPlainPaths backend (inbound [] ''@'' False)) ''X-Forwarded-For''
       = None"
  by (simp add: proxyDirector_eq Director_X_Forwarded_For Get_def socketHost_def split_examples)

text \<open>
  C2. A request that already has an \<^verbatim>\<open>X-Forwarded-Proto\<close> entry keeps its values
  unchanged; a request without one gets exactly \<^verbatim>\<open>https\<close> when the inbound
  connection used TLS and exactly \<^verbatim>\<open>http\<close> otherwise.
\<close>

theorem proxyDirector_X_Forwarded_Proto:
  "(Header req ''X-Forwarded-Proto'' = Some v \<longrightarrow>
      Header (proxyDirector joinURLPath target req) ''X-Forwarded-Proto'' = Some v)
   \<and> (Header req ''X-Forwarded-Proto'' = None \<and> TLS req \<noteq> None \<longrightarrow>
      Header (proxyDirector joinURLPath target req) ''X-Forwarded-Proto'' = Some [''https''])
   \<and> (Header req ''X-Forwarded-Proto'' = None \<and> TLS req = None \<longrightarrow>
      Header (proxyDirector joinURLPath target req) ''X-Forwarded-Proto'' = Some [''http''])"
  by (simp add: proxyDirector_eq Director_X_Forwarded_Proto)

theorem proxyDirector_X_Forwarded_Proto_witness:
  "Header (inbound [(''X-Forwarded-Proto'', [''https''])] ''10.0.0.2:443'' False)
      ''X-Forwarded-Proto'' = Some [''https'']
   \<and> Header (proxyDirector joinPlainPaths backend
        (inbound [(''X-Forwarded-Proto'', [''https''])] ''10.0.0.2:443'' False))
      ''X-Forwarded-Proto'' = Some [''https'']
   \<and> Header (inbound [] ''10.0.0.2:443'' True) ''X-Forwarded-Proto'' = None
   \<and> TLS (inbound [] ''10.0.0.2:443'' True) \<noteq> None
   \<and> Header (proxyDirector joinPlainPaths backend (inbound [] ''10.0.0.2:443'' True))
      ''X-Forwarded-Proto'' = Some [''https'']
   \<and> Header (inbound [] ''10.0.0.2:80'' False) ''X-Forwarded-Proto'' = None
   \<and> TLS (inbound [] ''10.0.0.2:80'' False) = None
   \<and> Header (proxyDirector joinPlainPaths backend (inbound [] ''10.0.0.2:80'' False))
      ''X-Forwarded-Proto'' = Some [''http'']"
proof -
  let ?a = "inbound [(''X-Forwarded-Proto'', [''https''])] ''10.0.0.2:443'' False"
  let ?b = "inbound [] ''10.0.0.2:443'' True"
  let ?c = "inbound [] ''10.0.0.2:80'' False"
  have a: "Header ?a ''X-Forwarded-Proto'' = Some [''https'']"
    by simp
  have b: "Header ?b ''X-Forwarded-Proto'' = None" "TLS ?b \<noteq> None"
    by simp_all
  have c: "Header ?c ''X-Forwarded-Proto'' = None" "TLS ?c = None"
    by simp_all
  have "Header (proxyDirector joinPlainPaths backend ?a) ''X-Forwarded-Proto'' = Some [''https'']"
    using proxyDirector_X_Forwarded_Proto
            [where req = ?a and joinURLPath = joinPlainPaths and target = backend
               and v = "[''https'']"] a
    by blast
  moreover
  have "Header (proxyDirector joinPlainPaths backend ?b) ''X-Forwarded-Proto'' = Some [''https'']"
    using proxyDirector_X_Forwarded_Proto
            [where req = ?b and joinURLPath = joinPlainPaths and target = backend] b
    by blast
  moreover
  have "Header (proxyDirector joinPlainPaths backend ?c) ''X-Forwarded-Proto'' = Some [''http'']"
    using proxyDirector_X_Forwarded_Proto
            [where req = ?c and joinURLPath = joinPlainPaths and target = backend] c
    by blast
  ultimately show ?thesis
    using a b c by blast
qed


text \<open>
  C3. After rewriting, the routing host of the request is the host of the upstream
  target; \<^verbatim>\<open>X-Forwarded-Host\<close> is the host the request had before rewriting when
  there was no such header, and an existing \<^verbatim>\<open>X-Forwarded-Host\<close> is kept unchanged.
\<close>

theorem proxyDirector_Host:
  "Host (proxyDirector joinURLPath target req) = URL_Host target
   \<and> (Header req ''X-Forwarded-Host'' = None \<longrightarrow>
        Header (proxyDirector joinURLPath target req) ''X-Forwarded-Host'' = Some [Host req])
   \<and> (Header req ''X-Forwarded-Host'' = Some v \<longrightarrow>
        Header (proxyDirector joinURLPath target req) ''X-Forwarded-Host'' = Some v)"
  by (simp add: proxyDirector_eq Director_X_Forwarded_Host Director_fields)

theorem proxyDirector_Host_witness:
  "Host (proxyDirector joinPlainPaths backend (inbound [] ''10.0.0.2:443'' True))
      = ''backend.internal:9000''
   \<and> Header (inbound [] ''10.0.0.2:443'' True) ''X-Forwarded-Host'' = None
   \<and> Header (proxyDirector joinPlainPaths backend (inbound [] ''10.0.0.2:443'' True))
        ''X-Forwarded-Host'' = Some [''shop.example.org'']
   \<and> Header (inbound [(''X-Forwarded-Host'', [''www.example.com''])] ''10.0.0.2:443'' True)
        ''X-Forwarded-Host'' = Some [''www.example.com'']
   \<and> Header (proxyDirector joinPlainPaths backend
        (inbound [(''X-Forwarded-Host'', [''www.example.com''])] ''10.0.0.2:443'' True))
        ''X-Forwarded-Host'' = Some [''www.example.com'']"
proof -
  let ?a = "inbound [] ''10.0.0.2:443'' True"
  let ?b = "inbound [(''X-Forwarded-Host'', [''www.example.com''])] ''10.0.0.2:443'' True"
  have a: "Header ?a ''X-Forwarded-Host'' = None"
    by simp
  have b: "Header ?b ''X-Forwarded-Host'' = Some [''www.example.com'']"
    by simp
  have h: "URL_Host backend = ''backend.internal:9000''" "Host ?a = ''shop.example.org''"
    by (simp_all add: backend_def)
  have "Host (proxyDirector joinPlainPaths backend ?a) = ''backend.internal:9000''
        \<and> Header (proxyDirector joinPlainPaths backend ?a) ''X-Forwarded-Host''
            = Some [''shop.example.org'']"
    using proxyDirector_Host [where req = ?a and joinURLPath = joinPlainPaths and target = backend]
          a h
    by simp
  moreover
  have "Header (proxyDirector joinPlainPaths backend ?b) ''X-Forwarded-Host''
          = Some [''www.example.com'']"
    using proxyDirector_Host
            [where req = ?b and joinURLPath = joinPlainPaths and target = backend
               and v = "[''www.example.com'']"] b
    by blast
  ultimately show ?thesis
    using a b by blast
qed


text \<open>
  C4. Whatever the inbound request carries, after rewriting it has no
  \<^verbatim>\<open>Connection\<close>, no \<^verbatim>\<open>Upgrade\<close> and no \<^verbatim>\<open>Transfer-Encoding\<close> header: the map has
  no entry for them, and \<open>Get\<close> finds the empty string.
\<close>

theorem proxyDirector_hop_by_hop:
  "Header (proxyDirector joinURLPath target req) ''Connection'' = None
   \<and> Header (proxyDirector joinURLPath target req) ''Upgrade'' = None
   \<and> Header (proxyDirector joinURLPath target req) ''Transfer-Encoding'' = None
   \<and> Get (Header (proxyDirector joinURLPath target req)) ''Connection'' = ''''
   \<and> Get (Header (proxyDirector joinURLPath target req)) ''Upgrade'' = ''''
   \<and> Get (Header (proxyDirector joinURLPath target req)) ''Transfer-Encoding'' = ''''"
  by (simp add: proxyDirector_eq Director_hop_headers Get_def canonical_keys)

theorem proxyDirector_hop_by_hop_witness:
  "Header (inbound [(''Connection'', [''Upgrade'']), (''Upgrade'', [''websocket'']),
             (''Transfer-Encoding'', [''chunked''])] ''10.0.0.2:443'' True) ''Connection''
      = Some [''Upgrade'']
   \<and> Header (proxyDirector joinPlainPaths backend
        (inbound [(''Connection'', [''Upgrade'']), (''Upgrade'', [''websocket'']),
             (''Transfer-Encoding'', [''chunked''])] ''10.0.0.2:443'' True)) ''Connection'' = None
   \<and> Header (proxyDirector joinPlainPaths backend
        (inbound [(''Connection'', [''Upgrade'']), (''Upgrade'', [''websocket'']),
             (''Transfer-Encoding'', [''chunked''])] ''10.0.0.2:443'' True)) ''Upgrade'' = None
   \<and> Header (proxyDirector joinPlainPaths backend
        (inbound [(''Connection'', [''Upgrade'']), (''Upgrade'', [''websocket'']),
             (''Transfer-Encoding'', [''chunked''])] ''10.0.0.2:443'' True)) ''Transfer-Encoding''
        = None"
  using proxyDirector_hop_by_hop
          [where joinURLPath = joinPlainPaths and target = backend
             and req = "inbound [(''Connection'', [''Upgrade'']), (''Upgrade'', [''websocket'']),
                          (''Transfer-Encoding'', [''chunked''])] ''10.0.0.2:443'' True"]
  by simp


text \<open>
  C9. For a request without a (non-empty) \<^verbatim>\<open>X-Real-IP\<close> whose remote address does
  not split into host and port, rewriting leaves \<^verbatim>\<open>X-Forwarded-For\<close> as it arrived:
  the prior values stay, and a request without the header is forwarded without it.
\<close>

theorem proxyDirector_unparsable_RemoteAddr:
  assumes "Get (Header req) ''X-Real-IP'' = ''''"
    and "SplitHostPort (RemoteAddr req) = Inl err"
  shows "Header (proxyDirector joinURLPath target req) ''X-Forwarded-For''
           = Header req ''X-Forwarded-For''"
  using assms by (simp add: proxyDirector_eq Director_X_Forwarded_For)

theorem proxyDirector_unparsable_RemoteAddr_witness:
  "Get (Header (inbound [(''X-Forwarded-For'', [''10.0.0.1''])] ''@'' False)) ''X-Real-IP'' = ''''
   \<and> SplitHostPort (RemoteAddr (inbound [(''X-Forwarded-For'', [''10.0.0.1''])] ''@'' False))
        = Inl (AddrError ''missing port in address'' ''@'')
   \<and> Header (proxyDirector joinPlainPaths backend
        (inbound [(''X-Forwarded-For'', [''10.0.0.1''])] ''@'' False)) ''X-Forwarded-For''
        = Some [''10.0.0.1'']
   \<and> Get (Header (inbound [] ''@'' False)) ''X-Real-IP'' = ''''
   \<and> Header (proxyDirector joinPlainPaths backend (inbound [] ''@'' False)) ''X-Forwarded-For''
        = None"
proof -
  let ?a = "inbound [(''X-Forwarded-For'', [''10.0.0.1''])] ''@'' False"
  let ?b = "inbound [] ''@'' False"
  have a1: "Get (Header ?a) ''X-Real-IP'' = ''''"
    by (simp add: Get_def canonical_keys)
  have a2: "SplitHostPort (RemoteAddr ?a) = Inl (AddrError ''missing port in address'' ''@'')"
    by (simp add: split_examples)
  have b1: "Get (Header ?b) ''X-Real-IP'' = ''''"
    by (simp add: Get_def)
  have b2: "SplitHostPort (RemoteAddr ?b) = Inl (AddrError ''missing port in address'' ''@'')"
    by (simp add: split_examples)
  have "Header (proxyDirector joinPlainPaths backend ?a) ''X-Forwarded-For'' = Some [''10.0.0.1'']"
    using proxyDirector_unparsable_RemoteAddr [OF a1 a2, of joinPlainPaths backend] by simp
  moreover
  have "Header (proxyDirector joinPlainPaths backend ?b) ''X-Forwarded-For'' = None"
    using proxyDirector_unparsable_RemoteAddr [OF b1 b2, of joinPlainPaths backend] by simp
  ultimately show ?thesis
    using a1 a2 b1 by blast
qed


text \<open>
  C10. Rewriting changes only the routing host, the six headers \<^verbatim>\<open>Connection\<close>,
  \<^verbatim>\<open>Upgrade\<close>, \<^verbatim>\<open>Transfer-Encoding\<close>, \<^verbatim>\<open>X-Forwarded-For\<close>, \<^verbatim>\<open>X-Forwarded-Proto\<close>
  and \<^verbatim>\<open>X-Forwarded-Host\<close>, and the URL, which is the one the single-host director
  sets. Method, body, remote address, TLS state and every other header are those of
  the inbound request.
\<close>
theorem proxyDirector_frame:
  "Method (proxyDirector joinURLPath target req) = Method req
   \<and> Body (proxyDirector joinURLPath target req) = Body req
   \<and> RemoteAddr (proxyDirector joinURLPath target req) = RemoteAddr req
   \<and> TLS (proxyDirector joinURLPath target req) = TLS req
   \<and> URL (proxyDirector joinURLPath target req) = URL (rewriteRequestURL joinURLPath target req)
   \<and> (\<forall>k. k \<notin> {''Connection'', ''Upgrade'', ''Transfer-Encoding'',
                  ''X-Forwarded-For'', ''X-Forwarded-Proto'', ''X-Forwarded-Host''} \<longrightarrow>
          Header (proxyDirector joinURLPath target req) k = Header req k)"
proof -
  have "Header (proxyDirector joinURLPath target req) k = Header req k"
    if "k \<notin> {''Connection'', ''Upgrade'', ''Transfer-Encoding'',
                ''X-Forwarded-For'', ''X-Forwarded-Proto'', ''X-Forwarded-Host''}" for k
    using Director_other_headers [OF that, of "rewriteRequestURL joinURLPath target" target req]
    by (simp only: proxyDirector_eq rewriteRequestURL_other)
  then have "\<forall>k. k \<notin> {''Connection'', ''Upgrade'', ''Transfer-Encoding'',
                  ''X-Forwarded-For'', ''X-Forwarded-Proto'', ''X-Forwarded-Host''} \<longrightarrow>
          Header (proxyDirector joinURLPath target req) k = Header req k"
    by (intro allI impI)
  moreover have "Method (proxyDirector joinURLPath target req) = Method req"
    and "Body (proxyDirector joinURLPath target req) = Body req"
    and "RemoteAddr (proxyDirector joinURLPath target req) = RemoteAddr req"
    and "TLS (proxyDirector joinURLPath target req) = TLS req"
    and "URL (proxyDirector joinURLPath target req)
           = URL (rewriteRequestURL joinURLPath target req)"
    by (simp_all only: proxyDirector_eq Director_fields rewriteRequestURL_other)
  ultimately show ?thesis
    by (intro conjI)
qed

theorem proxyDirector_frame_witness:
  "''Accept'' \<notin> {''Connection'', ''Upgrade'', ''Transfer-Encoding'',
                  ''X-Forwarded-For'', ''X-Forwarded-Proto'', ''X-Forwarded-Host''}
   \<and> Method (proxyDirector joinPlainPaths backend
        (inbound [(''Accept'', [''text/html'']), (''Connection'', [''close''])] ''10.0.0.2:443'' True))
       = ''GET''
   \<and> Body (proxyDirector joinPlainPaths backend
        (inbound [(''Accept'', [''text/html'']), (''Connection'', [''close''])] ''10.0.0.2:443'' True))
       = ''''
   \<and> Header (proxyDirector joinPlainPaths backend
        (inbound [(''Accept'', [''text/html'']), (''Connection'', [''close''])] ''10.0.0.2:443'' True))
        ''Accept'' = Some [''text/html'']"
proof -
  let ?a = "inbound [(''Accept'', [''text/html'']), (''Connection'', [''close''])]
              ''10.0.0.2:443'' True"
  note frame = proxyDirector_frame
                 [where req = ?a and joinURLPath = joinPlainPaths and target = backend]
  have k: "''Accept'' \<notin> {''Connection'', ''Upgrade'', ''Transfer-Encoding'',
                  ''X-Forwarded-For'', ''X-Forwarded-Proto'', ''X-Forwarded-Host''}"
    by simp
  from frame have m: "Method (proxyDirector joinPlainPaths backend ?a) = Method ?a"
    by (elim conjE)
  from frame have b: "Body (proxyDirector joinPlainPaths backend ?a) = Body ?a"
    by (elim conjE)
  from frame have "\<forall>k. k \<notin> {''Connection'', ''Upgrade'', ''Transfer-Encoding'',
                  ''X-Forwarded-For'', ''X-Forwarded-Proto'', ''X-Forwarded-Host''} \<longrightarrow>
          Header (proxyDirector joinPlainPaths backend ?a) k = Header ?a k"
    by (elim conjE)
  then have h: "Header (proxyDirector joinPlainPaths backend ?a) ''Accept'' = Header ?a ''Accept''"
    using k by (elim allE impE)
  have "Method ?a = ''GET''" "Body ?a = ''''" "Header ?a ''Accept'' = Some [''text/html'']"
    by simp_all
  with m b h k show ?thesis
    by (simp only: simp_thms)
qed

section \<open>The claim about identity resolution\<close>

text \<open>
  C5 (amended). \<open>getRealIP\<close> always returns a string: the \<^verbatim>\<open>X-Real-IP\<close> value when
  it is non-empty; else, when the first \<^verbatim>\<open>X-Forwarded-For\<close> value is non-empty, the
  text before its first comma trimmed of white space, which may be empty; else the host
  of the remote address, which is the address without its port (and without the
  brackets of an IPv6 host), or the raw remote address when it does not split.
  It is the first non-empty of the three signals whenever the \<^verbatim>\<open>X-Real-IP\<close> value is
  non-empty, the \<^verbatim>\<open>X-Forwarded-For\<close> value is empty, or the trimmed first address
  is non-empty.
\<close>
theorem getRealIP_resolution:
  "(Get (Header r) ''X-Real-IP'' \<noteq> '''' \<longrightarrow> getRealIP r = Get (Header r) ''X-Real-IP'')
   \<and> (Get (Header r) ''X-Real-IP'' = '''' \<and> Get (Header r) ''X-Forwarded-For'' \<noteq> '''' \<longrightarrow>
        getRealIP r
          = TrimSpace (takeWhile (\<lambda>c. c \<noteq> CHR '','') (Get (Header r) ''X-Forwarded-For'')))
   \<and> (Get (Header r) ''X-Real-IP'' = '''' \<and> Get (Header r) ''X-Forwarded-For'' = ''''
        \<and> SplitHostPort (RemoteAddr r) = Inr (ip, port) \<longrightarrow>
        getRealIP r = ip
        \<and> (RemoteAddr r = ip @ '':'' @ port \<or> RemoteAddr r = ''['' @ ip @ '']:'' @ port))
   \<and> (Get (Header r) ''X-Real-IP'' = '''' \<and> Get (Header r) ''X-Forwarded-For'' = ''''
        \<and> SplitHostPort (RemoteAddr r) = Inl err \<longrightarrow>
        getRealIP r = RemoteAddr r)
   \<and> (Get (Header r) ''X-Real-IP'' \<noteq> '''' \<or> Get (Header r) ''X-Forwarded-For'' = ''''
        \<or> TrimSpace (takeWhile (\<lambda>c. c \<noteq> CHR '','') (Get (Header r) ''X-Forwarded-For'')) \<noteq> ''''
        \<longrightarrow> getRealIP r = resolveIdentity r)"
proof (intro conjI impI)
  assume "Get (Header r) ''X-Real-IP'' \<noteq> ''''"
  then show "getRealIP r = Get (Header r) ''X-Real-IP''"
    by (simp add: getRealIP_cases)
next
  assume "Get (Header r) ''X-Real-IP'' = '''' \<and> Get (Header r) ''X-Forwarded-For'' \<noteq> ''''"
  then show "getRealIP r
      = TrimSpace (takeWhile (\<lambda>c. c \<noteq> CHR '','') (Get (Header r) ''X-Forwarded-For''))"
    by (simp add: getRealIP_cases)
next
  assume a: "Get (Header r) ''X-Real-IP'' = '''' \<and> Get (Header r) ''X-Forwarded-For'' = ''''
             \<and> SplitHostPort (RemoteAddr r) = Inr (ip, port)"
  then show "getRealIP r = ip"
    by (simp add: getRealIP_cases socketHost_def)
  from a show "RemoteAddr r = ip @ '':'' @ port \<or> RemoteAddr r = ''['' @ ip @ '']:'' @ port"
    using SplitHostPort_Inr [of "RemoteAddr r" ip port] by blast
next
  assume "Get (Header r) ''X-Real-IP'' = '''' \<and> Get (Header r) ''X-Forwarded-For'' = ''''
          \<and> SplitHostPort (RemoteAddr r) = Inl err"
  then show "getRealIP r = RemoteAddr r"
    by (simp add: getRealIP_cases socketHost_def)
next
  assume "Get (Header r) ''X-Real-IP'' \<noteq> '''' \<or> Get (Header r) ''X-Forwarded-For'' = ''''
          \<or> TrimSpace (takeWhile (\<lambda>c. c \<noteq> CHR '','') (Get (Header r) ''X-Forwarded-For'')) \<noteq> ''''"
  then show "getRealIP r = resolveIdentity r"
    by (auto simp: getRealIP_cases resolveIdentity_def TrimSpace_Nil)
qed

theorem getRealIP_resolution_witness:
  "Get (Header (inbound [(''X-Real-Ip'', [''203.0.113.7'']), (''X-Forwarded-For'', [''10.0.0.1''])]
          ''10.0.0.2:443'' True)) ''X-Real-IP'' \<noteq> ''''
   \<and> getRealIP (inbound [(''X-Real-Ip'', [''203.0.113.7'']), (''X-Forwarded-For'', [''10.0.0.1''])]
          ''10.0.0.2:443'' True) = ''203.0.113.7''
   \<and> Get (Header (inbound [(''X-Forwarded-For'', ['' 10.0.0.1 , 10.0.0.5''])] ''10.0.0.2:443'' True))
        ''X-Real-IP'' = ''''
   \<and> Get (Header (inbound [(''X-Forwarded-For'', ['' 10.0.0.1 , 10.0.0.5''])] ''10.0.0.2:443'' True))
        ''X-Forwarded-For'' \<noteq> ''''
   \<and> getRealIP (inbound [(''X-Forwarded-For'', ['' 10.0.0.1 , 10.0.0.5''])] ''10.0.0.2:443'' True)
        = ''10.0.0.1''
   \<and> getRealIP (inbound [(''X-Forwarded-For'', ['' 10.0.0.1 , 10.0.0.5''])] ''10.0.0.2:443'' True)
        = resolveIdentity
            (inbound [(''X-Forwarded-For'', ['' 10.0.0.1 , 10.0.0.5''])] ''10.0.0.2:443'' True)
   \<and> SplitHostPort (RemoteAddr (inbound [] ''10.0.0.2:443'' True)) = Inr (''10.0.0.2'', ''443'')
   \<and> getRealIP (inbound [] ''10.0.0.2:443'' True) = ''10.0.0.2''
   \<and> SplitHostPort (RemoteAddr (inbound [] ''@'' False))
        = Inl (AddrError ''missing port in address'' ''@'')
   \<and> getRealIP (inbound [] ''@'' False) = ''@''"
proof -
  let ?a = "inbound [(''X-Real-Ip'', [''203.0.113.7'']), (''X-Forwarded-For'', [''10.0.0.1''])]
              ''10.0.0.2:443'' True"
  let ?b = "inbound [(''X-Forwarded-For'', ['' 10.0.0.1 , 10.0.0.5''])] ''10.0.0.2:443'' True"
  let ?c = "inbound [] ''10.0.0.2:443'' True"
  let ?d = "inbound [] ''@'' False"
  have a: "Get (Header ?a) ''X-Real-IP'' = ''203.0.113.7''"
    by (simp add: Get_def canonical_keys)
  then have a': "Get (Header ?a) ''X-Real-IP'' \<noteq> ''''"
    by simp
  have b1: "Get (Header ?b) ''X-Real-IP'' = ''''"
    and b2: "Get (Header ?b) ''X-Forwarded-For'' = '' 10.0.0.1 , 10.0.0.5''"
    by (simp_all add: Get_def canonical_keys)
  from b2 have b2': "Get (Header ?b) ''X-Forwarded-For'' \<noteq> ''''"
    by simp
  have b3: "TrimSpace (takeWhile (\<lambda>c. c \<noteq> CHR '','') (Get (Header ?b) ''X-Forwarded-For''))
              = ''10.0.0.1''"
    unfolding b2 by (rule trim_examples)
  then have b3': "TrimSpace (takeWhile (\<lambda>c. c \<noteq> CHR '','') (Get (Header ?b) ''X-Forwarded-For''))
              \<noteq> ''''"
    by simp
  have c1: "Get (Header ?c) ''X-Real-IP'' = ''''" "Get (Header ?c) ''X-Forwarded-For'' = ''''"
    and c2: "SplitHostPort (RemoteAddr ?c) = Inr (''10.0.0.2'', ''443'')"
    by (simp_all add: Get_def split_examples)
  have d1: "Get (Header ?d) ''X-Real-IP'' = ''''" "Get (Header ?d) ''X-Forwarded-For'' = ''''"
    and d2: "SplitHostPort (RemoteAddr ?d) = Inl (AddrError ''missing port in address'' ''@'')"
    by (simp_all add: Get_def split_examples)
  note ra = getRealIP_resolution
              [where r = ?a and ip = "''''" and port = "''''" and err = "AddrError '''' ''''"]
  note rb = getRealIP_resolution
              [where r = ?b and ip = "''''" and port = "''''" and err = "AddrError '''' ''''"]
  note rc = getRealIP_resolution
              [where r = ?c and ip = "''10.0.0.2''" and port = "''443''"
                 and err = "AddrError '''' ''''"]
  note rd = getRealIP_resolution
              [where r = ?d and ip = "''''" and port = "''''"
                 and err = "AddrError ''missing port in address'' ''@''"]
  from ra have "Get (Header ?a) ''X-Real-IP'' \<noteq> '''' \<longrightarrow> getRealIP ?a = Get (Header ?a) ''X-Real-IP''"
    by (elim conjE)
  from this a' have "getRealIP ?a = Get (Header ?a) ''X-Real-IP''"
    by (rule mp)
  then have ga: "getRealIP ?a = ''203.0.113.7''"
    unfolding a .
  from b1 b2' have bpre: "Get (Header ?b) ''X-Real-IP'' = '''' \<and> Get (Header ?b) ''X-Forwarded-For'' \<noteq> ''''"
    by (intro conjI)
  from rb have "Get (Header ?b) ''X-Real-IP'' = '''' \<and> Get (Header ?b) ''X-Forwarded-For'' \<noteq> '''' \<longrightarrow>
        getRealIP ?b
          = TrimSpace (takeWhile (\<lambda>c. c \<noteq> CHR '','') (Get (Header ?b) ''X-Forwarded-For''))"
    by (elim conjE)
  from this bpre have "getRealIP ?b
          = TrimSpace (takeWhile (\<lambda>c. c \<noteq> CHR '','') (Get (Header ?b) ''X-Forwarded-For''))"
    by (rule mp)
  then have gb: "getRealIP ?b = ''10.0.0.1''"
    unfolding b3 .
  from b3' have bpre': "Get (Header ?b) ''X-Real-IP'' \<noteq> '''' \<or> Get (Header ?b) ''X-Forwarded-For'' = ''''
        \<or> TrimSpace (takeWhile (\<lambda>c. c \<noteq> CHR '','') (Get (Header ?b) ''X-Forwarded-For'')) \<noteq> ''''"
    by (intro disjI2)
  from rb have "Get (Header ?b) ''X-Real-IP'' \<noteq> '''' \<or> Get (Header ?b) ''X-Forwarded-For'' = ''''
        \<or> TrimSpace (takeWhile (\<lambda>c. c \<noteq> CHR '','') (Get (Header ?b) ''X-Forwarded-For'')) \<noteq> ''''
        \<longrightarrow> getRealIP ?b = resolveIdentity ?b"
    by (elim conjE)
  from this bpre' have gb': "getRealIP ?b = resolveIdentity ?b"
    by (rule mp)
  from c1 c2 have cpre: "Get (Header ?c) ''X-Real-IP'' = '''' \<and> Get (Header ?c) ''X-Forwarded-For'' = ''''
        \<and> SplitHostPort (RemoteAddr ?c) = Inr (''10.0.0.2'', ''443'')"
    by (intro conjI)
  from rc have "Get (Header ?c) ''X-Real-IP'' = '''' \<and> Get (Header ?c) ''X-Forwarded-For'' = ''''
        \<and> SplitHostPort (RemoteAddr ?c) = Inr (''10.0.0.2'', ''443'') \<longrightarrow>
        getRealIP ?c = ''10.0.0.2''
        \<and> (RemoteAddr ?c = ''10.0.0.2'' @ '':'' @ ''443''
             \<or> RemoteAddr ?c = ''['' @ ''10.0.0.2'' @ '']:'' @ ''443'')"
    by (elim conjE)
  from this cpre have "getRealIP ?c = ''10.0.0.2''
        \<and> (RemoteAddr ?c = ''10.0.0.2'' @ '':'' @ ''443''
             \<or> RemoteAddr ?c = ''['' @ ''10.0.0.2'' @ '']:'' @ ''443'')"
    by (rule mp)
  then have gc: "getRealIP ?c = ''10.0.0.2''"
    by (rule conjunct1)
  from d1 d2 have dpre: "Get (Header ?d) ''X-Real-IP'' = '''' \<and> Get (Header ?d) ''X-Forwarded-For'' = ''''
        \<and> SplitHostPort (RemoteAddr ?d) = Inl (AddrError ''missing port in address'' ''@'')"
    by (intro conjI)
  from rd have "Get (Header ?d) ''X-Real-IP'' = '''' \<and> Get (Header ?d) ''X-Forwarded-For'' = ''''
        \<and> SplitHostPort (RemoteAddr ?d) = Inl (AddrError ''missing port in address'' ''@'') \<longrightarrow>
        getRealIP ?d = RemoteAddr ?d"
    by (elim conjE)
  from this dpre have "getRealIP ?d = RemoteAddr ?d"
    by (rule mp)
  then have gd: "getRealIP ?d = ''@''"
    by simp
  from a' ga b1 b2' gb gb' c2 gc d2 gd show ?thesis
    by (intro conjI)
qed

text \<open>
  C5 as stated fails when the chain header starts with a comma: the first address is
  empty, the remote address resolves to \<^verbatim>\<open>10.0.0.2\<close>, which the first non-empty
  rule returns, and \<open>getRealIP\<close> returns the empty string.
\<close>
theorem getRealIP_empty_first_address_counterexample:
  "Get (Header (inbound [(''X-Forwarded-For'', ['', 10.0.0.1''])] ''10.0.0.2:443'' False))
      ''X-Real-IP'' = ''''
   \<and> TrimSpace (takeWhile (\<lambda>c. c \<noteq> CHR '','')
        (Get (Header (inbound [(''X-Forwarded-For'', ['', 10.0.0.1''])] ''10.0.0.2:443'' False))
           ''X-Forwarded-For'')) = ''''
   \<and> socketHost (inbound [(''X-Forwarded-For'', ['', 10.0.0.1''])] ''10.0.0.2:443'' False)
        = ''10.0.0.2''
   \<and> resolveIdentity (inbound [(''X-Forwarded-For'', ['', 10.0.0.1''])] ''10.0.0.2:443'' False)
        = ''10.0.0.2''
   \<and> getRealIP (inbound [(''X-Forwarded-For'', ['', 10.0.0.1''])] ''10.0.0.2:443'' False) = ''''"
proof -
  let ?r = "inbound [(''X-Forwarded-For'', ['', 10.0.0.1''])] ''10.0.0.2:443'' False"
  have 1: "Get (Header ?r) ''X-Real-IP'' = ''''"
    and 2: "Get (Header ?r) ''X-Forwarded-For'' = '', 10.0.0.1''"
    by (simp_all add: Get_def canonical_keys)
  have 3: "socketHost ?r = ''10.0.0.2''"
    by (simp add: socketHost_def split_examples)
  have 4: "TrimSpace (takeWhile (\<lambda>c. c \<noteq> CHR '','') (Get (Header ?r) ''X-Forwarded-For''))
             = ''''"
    unfolding 2 by (rule trim_examples)
  have 5: "resolveIdentity ?r = ''10.0.0.2''"
    unfolding resolveIdentity_def 1 4 3 by simp
  have 6: "getRealIP ?r = ''''"
    unfolding getRealIP_cases 1 2 by (simp add: TrimSpace_Nil)
  from 1 4 3 5 6 show ?thesis
    by (intro conjI)
qed

section \<open>The claim about idempotence\<close>

text \<open>
  C6 (amended). Four of the five blocks are idempotent on the request: stripping the
  hop-by-hop headers, rewriting the host, setting \<^verbatim>\<open>X-Forwarded-Proto\<close>, and setting
  \<^verbatim>\<open>X-Forwarded-Host\<close> (whatever host the second run has saved). The block for
  \<^verbatim>\<open>X-Forwarded-For\<close> is idempotent exactly when \<^verbatim>\<open>X-Real-IP\<close> is non-empty or the
  remote address does not split into host and port.
\<close>
theorem rewriting_blocks_idempotent:
  "removeHopHeaders (removeHopHeaders req) = removeHopHeaders req
   \<and> setHost target (setHost target req) = setHost target req
   \<and> setXForwardedProto (setXForwardedProto req) = setXForwardedProto req
   \<and> setXForwardedHost host' (setXForwardedHost originalHost req)
       = setXForwardedHost originalHost req
   \<and> (handleXForwardedFor (handleXForwardedFor req) = handleXForwardedFor req
        \<longleftrightarrow> Get (Header req) ''X-Real-IP'' \<noteq> '''' \<or> isl (SplitHostPort (RemoteAddr req)))"
proof -
  have "removeHopHeaders (removeHopHeaders req) = removeHopHeaders req"
    by (simp add: removeHopHeaders_def Del_def)
  moreover have "setHost target (setHost target req) = setHost target req"
    by (simp add: setHost_def)
  moreover have "setXForwardedProto (setXForwardedProto req) = setXForwardedProto req"
    by (auto simp: setXForwardedProto_def Set_def Get_def canonical_keys Let_def
             split: option.splits)
  moreover have "setXForwardedHost host' (setXForwardedHost originalHost req)
                   = setXForwardedHost originalHost req"
    by (auto simp: setXForwardedHost_def Set_def canonical_keys split: option.splits)
  ultimately show ?thesis
    using handleXForwardedFor_idem_iff [of req] by blast
qed

theorem rewriting_blocks_idempotent_witness:
  "Get (Header (inbound [(''X-Real-Ip'', [''203.0.113.7''])] ''10.0.0.2:443'' True)) ''X-Real-IP''
      \<noteq> ''''
   \<and> handleXForwardedFor
        (handleXForwardedFor (inbound [(''X-Real-Ip'', [''203.0.113.7''])] ''10.0.0.2:443'' True))
      = handleXForwardedFor (inbound [(''X-Real-Ip'', [''203.0.113.7''])] ''10.0.0.2:443'' True)
   \<and> removeHopHeaders
        (removeHopHeaders (inbound [(''Connection'', [''close''])] ''10.0.0.2:443'' True))
      = removeHopHeaders (inbound [(''Connection'', [''close''])] ''10.0.0.2:443'' True)"
proof -
  let ?a = "inbound [(''X-Real-Ip'', [''203.0.113.7''])] ''10.0.0.2:443'' True"
  have a: "Get (Header ?a) ''X-Real-IP'' \<noteq> ''''"
    by (simp add: Get_def canonical_keys)
  have "handleXForwardedFor (handleXForwardedFor ?a) = handleXForwardedFor ?a"
    using rewriting_blocks_idempotent [where req = ?a] a by blast
  moreover have "removeHopHeaders
        (removeHopHeaders (inbound [(''Connection'', [''close''])] ''10.0.0.2:443'' True))
      = removeHopHeaders (inbound [(''Connection'', [''close''])] ''10.0.0.2:443'' True)"
    using rewriting_blocks_idempotent
            [where req = "inbound [(''Connection'', [''close''])] ''10.0.0.2:443'' True"]
    by blast
  ultimately show ?thesis
    using a by blast
qed

text \<open>
  C6 as stated fails for the \<^verbatim>\<open>X-Forwarded-For\<close> block: on a request without
  headers from \<^verbatim>\<open>10.0.0.2:443\<close> one run gives the chain \<^verbatim>\<open>10.0.0.2\<close> and a second
  run appends the address again.
\<close>
theorem handleXForwardedFor_twice_counterexample:
  "Header (handleXForwardedFor (inbound [] ''10.0.0.2:443'' False)) ''X-Forwarded-For''
      = Some [''10.0.0.2'']
   \<and> Header (handleXForwardedFor (handleXForwardedFor (inbound [] ''10.0.0.2:443'' False)))
        ''X-Forwarded-For'' = Some [''10.0.0.2, 10.0.0.2'']
   \<and> handleXForwardedFor (handleXForwardedFor (inbound [] ''10.0.0.2:443'' False))
        \<noteq> handleXForwardedFor (inbound [] ''10.0.0.2:443'' False)"
proof -
  let ?r = "inbound [] ''10.0.0.2:443'' False"
  have 1: "Header (handleXForwardedFor ?r) = [''X-Forwarded-For'' \<mapsto> [''10.0.0.2'']]"
    by (simp add: Header_handleXForwardedFor Get_def split_examples)
  have 2: "Header (handleXForwardedFor (handleXForwardedFor ?r)) ''X-Forwarded-For''
             = Some [''10.0.0.2, 10.0.0.2'']"
    by (simp add: Header_handleXForwardedFor [of "handleXForwardedFor ?r"] 1 Get_def
          canonical_keys split_examples)
  from 1 2 have "handleXForwardedFor (handleXForwardedFor ?r) \<noteq> handleXForwardedFor ?r"
    by auto
  with 1 2 show ?thesis
    by simp
qed


section \<open>The claim about failures\<close>

text \<open>
  C8. The response the error handler writes does not depend on the error (nor on the
  request): the recorded status is 502 and the body gets the line \<^verbatim>\<open>Proxy error\<close>;
  on a writer that has sent nothing yet the status sent is 502. The error appears
  only in the log line.
\<close>
theorem ErrorHandler_generic_response:
  "snd (ErrorHandler URL_String w r err) = snd (ErrorHandler URL_String' w r' err')
   \<and> statusCode (snd (ErrorHandler URL_String w r err)) = 502
   \<and> body (embedded (snd (ErrorHandler URL_String w r err)))
       = body (embedded w) @ ''Proxy error'' @ [CHR 0x0A]
   \<and> (sent (embedded w) = None \<longrightarrow>
        map_option fst (sent (embedded (snd (ErrorHandler URL_String w r err)))) = Some 502)
   \<and> fst (ErrorHandler URL_String w r err)
       = ''Proxy error for '' @ Method r @ '' '' @ URL_String (URL r) @ '': '' @ err"
proof -
  have resp: "snd (ErrorHandler URL_String w r err) = http_Error w ''Proxy error'' 502"
    and resp': "snd (ErrorHandler URL_String' w r' err') = http_Error w ''Proxy error'' 502"
    by (simp_all add: ErrorHandler_def StatusBadGateway_def)
  have "fst (ErrorHandler URL_String w r err)
          = ''Proxy error for '' @ Method r @ '' '' @ URL_String (URL r) @ '': '' @ err"
    by (simp add: ErrorHandler_def)
  then show ?thesis
    unfolding resp resp' by (simp add: http_Error_response)
qed

theorem ErrorHandler_generic_response_witness:
  "sent (embedded freshWriter) = None
   \<and> map_option fst (sent (embedded (snd (ErrorHandler Path freshWriter
        (inbound [] ''10.0.0.2:443'' True) ''dial tcp 10.0.0.9:9000: connection refused''))))
       = Some 502
   \<and> body (embedded (snd (ErrorHandler Path freshWriter
        (inbound [] ''10.0.0.2:443'' True) ''dial tcp 10.0.0.9:9000: connection refused'')))
       = ''Proxy error'' @ [CHR 0x0A]
   \<and> snd (ErrorHandler Path freshWriter
        (inbound [] ''10.0.0.2:443'' True) ''dial tcp 10.0.0.9:9000: connection refused'')
       = snd (ErrorHandler Path freshWriter (inbound [] ''10.0.0.2:443'' True) ''EOF'')"
proof -
  let ?r = "inbound [] ''10.0.0.2:443'' True"
  let ?e = "''dial tcp 10.0.0.9:9000: connection refused''"
  have fresh: "sent (embedded freshWriter) = None"
    and empty: "body (embedded freshWriter) = ''''"
    by (simp_all add: freshWriter_def)
  note eh = ErrorHandler_generic_response
              [where w = freshWriter and URL_String = Path and URL_String' = Path
                 and r = ?r and r' = ?r and err = ?e and err' = "''EOF''"]
  from eh have same: "snd (ErrorHandler Path freshWriter ?r ?e)
                        = snd (ErrorHandler Path freshWriter ?r ''EOF'')"
    by (elim conjE)
  from eh have "body (embedded (snd (ErrorHandler Path freshWriter ?r ?e)))
                  = body (embedded freshWriter) @ ''Proxy error'' @ [CHR 0x0A]"
    by (elim conjE)
  then have msg: "body (embedded (snd (ErrorHandler Path freshWriter ?r ?e)))
                     = ''Proxy error'' @ [CHR 0x0A]"
    unfolding empty by simp
  from eh have "sent (embedded freshWriter) = None \<longrightarrow>
        map_option fst (sent (embedded (snd (ErrorHandler Path freshWriter ?r ?e)))) = Some 502"
    by (elim conjE)
  from this fresh
  have st: "map_option fst (sent (embedded (snd (ErrorHandler Path freshWriter ?r ?e))))
                = Some 502"
    by (rule mp)
  from fresh st msg same show ?thesis
    by (intro conjI)
qed

end
